theory Spec2Isabelle
  imports Complex_Main "HOL-Library.AList"
begin

section \<open>Python values\<close>

subsection \<open>Strings\<close>

text \<open>
  A Python \<open>str\<close> is a sequence of Unicode code points, and \<open>len\<close> counts code points.
  A string is therefore a list of code points (natural numbers); \<open>ustr\<close> turns an ASCII
  literal into such a list.
\<close>

type_synonym pystr = "nat list"

definition ustr :: "string \<Rightarrow> pystr" where
  "ustr s = map of_char s"

text \<open>The code points that \<open>str.strip()\<close> removes (those with \<open>str.isspace()\<close>).\<close>

definition isspace :: "nat \<Rightarrow> bool" where
  "isspace c \<longleftrightarrow>
     (9 \<le> c \<and> c \<le> 13) \<or> (28 \<le> c \<and> c \<le> 32) \<or> c = 133 \<or> c = 160 \<or> c = 5760 \<or>
     (8192 \<le> c \<and> c \<le> 8202) \<or> c = 8232 \<or> c = 8233 \<or> c = 8239 \<or> c = 8287 \<or> c = 12288"

definition strip :: "pystr \<Rightarrow> pystr" where
  "strip s = rev (dropWhile isspace (rev (dropWhile isspace s)))"

text \<open>
  \<open>s.split(sep)\<close> for a one-character separator: every occurrence of the separator
  ends a field, so \<open>n\<close> separators give \<open>n + 1\<close> fields, empty ones included.
\<close>

fun str_split :: "nat \<Rightarrow> pystr \<Rightarrow> pystr list" where
  "str_split d [] = [[]]"
| "str_split d (c # cs) =
     (if c = d then [] # str_split d cs
      else (case str_split d cs of [] \<Rightarrow> [[c]] | p # ps \<Rightarrow> (c # p) # ps))"

subsection \<open>Floating-point numbers\<close>

text \<open>
  A Python \<open>float\<close> is an IEEE 754 binary64 number: a finite value (a rational that the
  operations below keep on the binary64 grid), an infinity, or NaN. The sign of zero is
  not represented: no operation of the program can observe it.
\<close>

datatype pyfloat = Fin rat | PInf | NInf | NaN

definition pow2 :: "int \<Rightarrow> rat" where
  "pow2 k = (if 0 \<le> k then 2 ^ nat k else 1 / 2 ^ nat (- k))"

definition round_half_even :: "rat \<Rightarrow> int" where
  "round_half_even x =
     (let f = \<lfloor>x\<rfloor>; d = x - of_int f
      in if d < 1 / 2 then f else if 1 / 2 < d then f + 1
         else if even f then f else f + 1)"

fun bit_length :: "nat \<Rightarrow> nat" where
  "bit_length n = (if n = 0 then 0 else Suc (bit_length (n div 2)))"

declare bit_length.simps [simp del]

text \<open>\<open>ilog2 x\<close> is the binary exponent of a positive \<open>x\<close>: \<open>2 ^ ilog2 x \<le> x < 2 ^ (ilog2 x + 1)\<close>.\<close>

definition ilog2 :: "rat \<Rightarrow> int" where
  "ilog2 x = (if 1 \<le> x then int (bit_length (nat \<lfloor>x\<rfloor>)) - 1
              else - int (bit_length (nat (\<lceil>1 / x\<rceil> - 1))))"

text \<open>
  \<open>fl x\<close> rounds the exact value \<open>x\<close> to the nearest binary64 number, ties to even:
  53 significant bits, the smallest spacing \<open>2 ^ -1074\<close> (subnormal numbers), and an
  infinity when the rounded value reaches \<open>2 ^ 1024\<close>.
\<close>

definition fl :: "rat \<Rightarrow> pyfloat" where
  "fl x =
     (if x = 0 then Fin 0
      else let q = max (ilog2 \<bar>x\<bar> - 52) (- 1074);
               r = of_int (round_half_even (x / pow2 q)) * pow2 q
           in if pow2 1024 \<le> \<bar>r\<bar> then (if 0 < x then PInf else NInf) else Fin r)"

fun fneg :: "pyfloat \<Rightarrow> pyfloat" where
  "fneg (Fin a) = Fin (- a)"
| "fneg PInf = NInf"
| "fneg NInf = PInf"
| "fneg NaN = NaN"

fun fadd :: "pyfloat \<Rightarrow> pyfloat \<Rightarrow> pyfloat" where
  "fadd NaN y = NaN"
| "fadd x NaN = NaN"
| "fadd (Fin a) (Fin b) = fl (a + b)"
| "fadd (Fin a) y = y"
| "fadd x (Fin b) = x"
| "fadd PInf PInf = PInf"
| "fadd NInf NInf = NInf"
| "fadd PInf NInf = NaN"
| "fadd NInf PInf = NaN"

definition fsub :: "pyfloat \<Rightarrow> pyfloat \<Rightarrow> pyfloat" where
  "fsub x y = fadd x (fneg y)"

text \<open>The sign of a float that is not NaN, and the infinity of a sign.\<close>

fun fsign :: "pyfloat \<Rightarrow> int" where
  "fsign (Fin a) = sgn \<lfloor>sgn a\<rfloor>"
| "fsign PInf = 1"
| "fsign NInf = - 1"
| "fsign NaN = 0"

definition inf_of_sign :: "int \<Rightarrow> pyfloat" where
  "inf_of_sign s = (if s = 0 then NaN else if 0 < s then PInf else NInf)"

fun fmul :: "pyfloat \<Rightarrow> pyfloat \<Rightarrow> pyfloat" where
  "fmul NaN y = NaN"
| "fmul x NaN = NaN"
| "fmul (Fin a) (Fin b) = fl (a * b)"
| "fmul x y = inf_of_sign (fsign x * fsign y)"

text \<open>
  Division; \<open>None\<close> is Python's \<open>ZeroDivisionError\<close> for a zero divisor.
\<close>

fun fdiv :: "pyfloat \<Rightarrow> pyfloat \<Rightarrow> pyfloat option" where
  "fdiv NaN (Fin b) = (if b = 0 then None else Some NaN)"
| "fdiv NaN y = Some NaN"
| "fdiv x NaN = Some NaN"
| "fdiv (Fin a) (Fin b) = (if b = 0 then None else Some (fl (a / b)))"
| "fdiv (Fin a) y = Some (Fin 0)"
| "fdiv x (Fin b) = (if b = 0 then None else Some (inf_of_sign (fsign x * fsign (Fin b))))"
| "fdiv x y = Some NaN"

text \<open>Comparisons: every comparison with NaN is false.\<close>

fun flt :: "pyfloat \<Rightarrow> pyfloat \<Rightarrow> bool" where
  "flt NaN y = False"
| "flt x NaN = False"
| "flt (Fin a) (Fin b) = (a < b)"
| "flt (Fin a) PInf = True"
| "flt (Fin a) NInf = False"
| "flt PInf y = False"
| "flt NInf NInf = False"
| "flt NInf y = True"

fun fle :: "pyfloat \<Rightarrow> pyfloat \<Rightarrow> bool" where
  "fle NaN y = False"
| "fle x NaN = False"
| "fle x y = (x = y \<or> flt x y)"

text \<open>
  Converting an \<open>int\<close> operand of a float operation: correctly rounded, and
  \<open>OverflowError\<close> (\<open>None\<close>) when the integer is too large for a finite float.
\<close>

definition float_of_int :: "int \<Rightarrow> pyfloat option" where
  "float_of_int n = (case fl (of_int n) of Fin r \<Rightarrow> Some (Fin r) | _ \<Rightarrow> None)"

text \<open>
  \<open>round(x, 2)\<close>: the exact binary value is rounded to two decimals, ties to even, and
  the decimal result is converted back to the nearest float. Infinities and NaN round to
  themselves.
\<close>

fun round2 :: "pyfloat \<Rightarrow> pyfloat" where
  "round2 (Fin x) = fl (of_int (round_half_even (x * 100)) / 100)"
| "round2 x = x"

subsection \<open>Dates\<close>

datatype date = Date (d_year: nat) (d_month: nat) (d_day: nat)

fun date_less :: "date \<Rightarrow> date \<Rightarrow> bool" where
  "date_less (Date y1 m1 d1) (Date y2 m2 d2) =
     (y1 < y2 \<or> (y1 = y2 \<and> (m1 < m2 \<or> (m1 = m2 \<and> d1 < d2))))"

subsection \<open>The library functions the program calls\<close>

text \<open>
  The program calls \<open>int\<close>, \<open>float\<close>, \<open>datetime.strptime(_, "%Y-%m-%d").date()\<close> and
  \<open>sum\<close> of the Python runtime. They are not code of the program, so they are taken as
  parameters: a parser returns \<open>None\<close> where Python raises \<open>ValueError\<close>. Every general
  theorem below holds for whatever these functions are.
\<close>

record pylib =
  py_int :: "pystr \<Rightarrow> int option"
  py_float :: "pystr \<Rightarrow> pyfloat option"
  strptime_ymd :: "pystr \<Rightarrow> date option"
  py_sum :: "pyfloat list \<Rightarrow> pyfloat"

section \<open>The program\<close>

subsection \<open>Constants, records and errors\<close>

definition DELIMITER :: nat where
  "DELIMITER = of_char CHR '';''"

definition ALLOWED_CATEGORIES :: "pystr set" where
  "ALLOWED_CATEGORIES = {ustr ''electronics'', ustr ''food'', ustr ''books'', ustr ''clothes''}"

text \<open>
  The messages of \<open>ValidationError\<close>, one constructor for each message literal of the
  source, and \<open>EmptyLine\<close> for the message that \<open>process_file\<close> records itself.
\<close>

datatype reason =
    WrongFieldCount
  | IdNotPositive | IdNotUnique | IdNotNumber
  | BadNameLength
  | UnknownCategory
  | PriceNotPositive | PriceBadFormat
  | QuantityNegative | QuantityNotInteger
  | DiscountOutOfRange | DiscountBadFormat
  | FoodDiscountTooLarge
  | DateInFuture | DateBadFormat
  | FinalPriceBelowOne
  | EmptyLine

text \<open>The exceptions that are not \<open>ValidationError\<close>.\<close>

datatype py_exception =
  FileNotFoundError | PermissionError | UnicodeDecodeError | OverflowError | ZeroDivisionError

datatype 'a outcome = Returns 'a | Raises py_exception

text \<open>The dictionary that \<open>parse_and_validate\<close> returns (key \<open>id\<close> is \<open>rec_id\<close>).\<close>

record valid_record =
  rec_id :: int
  name :: pystr
  category :: pystr
  final_price :: pyfloat
  quantity :: int
  total_value :: pyfloat

datatype pv_result = Record valid_record | ValidationError reason | Uncaught py_exception

subsection \<open>\<open>parse_and_validate\<close>\<close>

text \<open>
  The body of \<open>parse_and_validate\<close> after the block that checks the id: from there on
  \<open>used_ids\<close> is not touched any more. The local variables \<open>name\<close>, \<open>category\<close>,
  \<open>quantity\<close> and \<open>final_price\<close> of the source are \<open>nm\<close>, \<open>cat\<close>, \<open>qty\<close> and \<open>fp\<close>
  here (the names themselves are the fields of the record). \<open>final_price * quantity\<close>
  converts the integer \<open>quantity\<close> to a float first, which raises \<open>OverflowError\<close> for a
  huge integer; nothing in the program catches it.
\<close>

definition check_fields ::
  "pylib \<Rightarrow> date \<Rightarrow> int \<Rightarrow> pystr \<Rightarrow> pystr \<Rightarrow> pystr \<Rightarrow> pystr \<Rightarrow> pystr \<Rightarrow> pystr \<Rightarrow> pv_result"
where
  "check_fields L today record_id raw_name cat raw_price raw_qty raw_discount raw_date =
     (let nm = strip raw_name in
      if length nm < 3 \<or> 50 < length nm then ValidationError BadNameLength
      else if cat \<notin> ALLOWED_CATEGORIES then ValidationError UnknownCategory
      else (case py_float L raw_price of
        None \<Rightarrow> ValidationError PriceBadFormat
      | Some price \<Rightarrow>
        if fle price (Fin 0) then ValidationError PriceNotPositive
        else (case py_int L raw_qty of
          None \<Rightarrow> ValidationError QuantityNotInteger
        | Some qty \<Rightarrow>
          if qty < 0 then ValidationError QuantityNegative
          else (case py_float L raw_discount of
            None \<Rightarrow> ValidationError DiscountBadFormat
          | Some discount \<Rightarrow>
            if flt discount (Fin 0) \<or> flt (Fin 50) discount
            then ValidationError DiscountOutOfRange
            else if cat = ustr ''food'' \<and> flt (Fin 20) discount
            then ValidationError FoodDiscountTooLarge
            else (case strptime_ymd L raw_date of
              None \<Rightarrow> ValidationError DateBadFormat
            | Some created_at \<Rightarrow>
              if date_less today created_at then ValidationError DateInFuture
              else (case fdiv discount (Fin 100) of
                None \<Rightarrow> Uncaught ZeroDivisionError
              | Some hundredth \<Rightarrow>
                (let fp = fmul price (fsub (Fin 1) hundredth) in
                 if flt fp (Fin 1) then ValidationError FinalPriceBelowOne
                 else (case float_of_int qty of
                   None \<Rightarrow> Uncaught OverflowError
                 | Some fqty \<Rightarrow>
                     Record \<lparr>rec_id = record_id, name = nm, category = cat,
                             final_price = round2 fp, quantity = qty,
                             total_value = round2 (fmul fp fqty)\<rparr>))))))))"

text \<open>
  \<open>parse_and_validate\<close> returns its result together with the set \<open>used_ids\<close>, which the
  source mutates in place. \<open>line_number\<close> is a parameter the source never reads.
\<close>

definition parse_and_validate ::
  "pylib \<Rightarrow> date \<Rightarrow> pystr \<Rightarrow> nat \<Rightarrow> int set \<Rightarrow> pv_result \<times> int set"
where
  "parse_and_validate L today line line_number used_ids =
     (let parts = str_split DELIMITER (strip line) in
      if length parts \<noteq> 7 then (ValidationError WrongFieldCount, used_ids)
      else (case py_int L (parts ! 0) of
        None \<Rightarrow> (ValidationError IdNotNumber, used_ids)
      | Some record_id \<Rightarrow>
        if record_id \<le> 0 then (ValidationError IdNotPositive, used_ids)
        else if record_id \<in> used_ids then (ValidationError IdNotUnique, used_ids)
        else (check_fields L today record_id (parts ! 1) (parts ! 2) (parts ! 3)
                (parts ! 4) (parts ! 5) (parts ! 6),
              insert record_id used_ids)))"

subsection \<open>\<open>process_file\<close>\<close>

text \<open>
  What \<open>open(path, encoding="utf-8")\<close> and the iteration over the file do is an input of
  the model: \<open>open\<close> raises, or the file yields its lines in order and then ends, or the
  read raises after some lines (a decoding error, for instance).
\<close>

datatype open_result = OpenRaises py_exception | Opened "pystr list" "py_exception option"

text \<open>The lines the program prints on the console.\<close>

datatype console_line =
    InputNotFound
  | SummaryTitle | SummaryRule nat
  | SummaryTotal nat | SummaryValid nat | SummaryInvalid nat
  | SummaryTotalValue pyfloat | SummarySaved pystr

text \<open>
  The lines of the report. A line is the template of the source's f-string with the
  values that the template formats (a float stands for its \<open>:.2f\<close> rendering).
\<close>

datatype report_line =
    RTitle | RRule nat | RBlank
  | RTotal nat | RValid nat | RInvalid nat
  | RTotalValue pyfloat | RAvgPrice pyfloat
  | RCategoriesHeader | RCategory pystr int pyfloat
  | RErrorsHeader | RNoErrors | RError nat reason

text \<open>
  The world the program runs in: the files it can read, the current date, what it has
  printed, and the reports written so far. The date is the same during one run.
\<close>

record world =
  w_files :: "pystr \<Rightarrow> open_result"
  w_today :: date
  w_console :: "console_line list"
  w_written :: "(pystr \<times> report_line list) list"

type_synonym errors = "(nat \<times> reason) list"

text \<open>
  The \<open>for\<close> loop of \<open>process_file\<close> over \<open>enumerate(file, start=1)\<close>, from line number
  \<open>n\<close> on, with the three variables it updates. An exception of \<open>parse_and_validate\<close>
  that is not a \<open>ValidationError\<close> leaves the loop.
\<close>

fun process_lines ::
  "pylib \<Rightarrow> date \<Rightarrow> nat \<Rightarrow> pystr list \<Rightarrow> valid_record list \<times> errors \<times> int set
     \<Rightarrow> (valid_record list \<times> errors \<times> int set) outcome"
where
  "process_lines L today n [] st = Returns st"
| "process_lines L today n (line # rest) (valid_records, errs, used_ids) =
     (if strip line = []
      then process_lines L today (Suc n) rest (valid_records, errs @ [(n, EmptyLine)], used_ids)
      else (case parse_and_validate L today line n used_ids of
              (Record r, used_ids') \<Rightarrow>
                process_lines L today (Suc n) rest (valid_records @ [r], errs, used_ids')
            | (ValidationError e, used_ids') \<Rightarrow>
                process_lines L today (Suc n) rest (valid_records, errs @ [(n, e)], used_ids')
            | (Uncaught x, used_ids') \<Rightarrow> Raises x))"

text \<open>The handler \<open>except FileNotFoundError\<close> around the whole \<open>with\<close> block.\<close>

definition except_file_not_found ::
  "py_exception \<Rightarrow> world \<Rightarrow> (valid_record list \<times> errors) outcome \<times> world"
where
  "except_file_not_found e w =
     (if e = FileNotFoundError
      then (Returns ([], []), w\<lparr>w_console := w_console w @ [InputNotFound]\<rparr>)
      else (Raises e, w))"

definition process_file ::
  "pylib \<Rightarrow> world \<Rightarrow> pystr \<Rightarrow> (valid_record list \<times> errors) outcome \<times> world"
where
  "process_file L w path =
     (case w_files w path of
        OpenRaises e \<Rightarrow> except_file_not_found e w
      | Opened lines read_error \<Rightarrow>
          (case process_lines L (w_today w) 1 lines ([], [], {}) of
             Raises e \<Rightarrow> except_file_not_found e w
           | Returns (valid_records, errs, used_ids) \<Rightarrow>
               (case read_error of
                  Some e \<Rightarrow> except_file_not_found e w
                | None \<Rightarrow> (Returns (valid_records, errs), w))))"

subsection \<open>\<open>calculate_statistics\<close>\<close>

text \<open>
  The dictionary \<open>stats\<close> (its keys carry the prefix \<open>st_\<close>) and the inner dictionaries
  of \<open>by_category\<close> (keys \<open>count\<close> and \<open>value\<close>). \<open>by_category\<close> is a list of pairs in
  insertion order, which is the order a Python dictionary iterates in.
\<close>

record cat_stats =
  cat_count :: int
  cat_value :: pyfloat

record stats =
  st_total_value :: pyfloat
  st_avg_price :: pyfloat
  st_by_category :: "(pystr \<times> cat_stats) list"

text \<open>
  \<open>stats["by_category"][key]\<close> on the \<open>defaultdict\<close>: a missing key is inserted, at the
  end, with the default \<open>{"count": 0, "value": 0.0}\<close>.
\<close>

definition defaultdict_get :: "(pystr \<times> cat_stats) list \<Rightarrow> pystr \<Rightarrow> (pystr \<times> cat_stats) list" where
  "defaultdict_get d k =
     (if k \<in> fst ` set d then d else d @ [(k, \<lparr>cat_count = 0, cat_value = Fin 0\<rparr>)])"

text \<open>One iteration of the loop \<open>for r in records\<close>.\<close>

definition add_record :: "(pystr \<times> cat_stats) list \<Rightarrow> valid_record \<Rightarrow> (pystr \<times> cat_stats) list" where
  "add_record d r =
     AList.map_entry (category r)
       (\<lambda>c. c\<lparr>cat_count := cat_count c + 1, cat_value := fadd (cat_value c) (total_value r)\<rparr>)
       (defaultdict_get d (category r))"

text \<open>
  \<open>sum(...) / len(records)\<close> converts the length to a float and divides; both steps can
  raise in Python, so the result is an outcome.
\<close>

definition calculate_statistics :: "pylib \<Rightarrow> valid_record list \<Rightarrow> stats outcome" where
  "calculate_statistics L records =
     (if records = []
      then Returns \<lparr>st_total_value = Fin 0, st_avg_price = Fin 0, st_by_category = []\<rparr>
      else (case float_of_int (int (length records)) of
              None \<Rightarrow> Raises OverflowError
            | Some n \<Rightarrow>
                (case fdiv (py_sum L (map final_price records)) n of
                   None \<Rightarrow> Raises ZeroDivisionError
                 | Some avg \<Rightarrow>
                     Returns \<lparr>st_total_value = py_sum L (map total_value records),
                              st_avg_price = avg,
                              st_by_category = foldl add_record [] records\<rparr>)))"

subsection \<open>\<open>generate_report\<close> and \<open>main\<close>\<close>

definition generate_report :: "valid_record list \<Rightarrow> errors \<Rightarrow> stats \<Rightarrow> report_line list" where
  "generate_report valid errs st =
     [RTitle, RRule 50,
      RTotal (length valid + length errs), RValid (length valid), RInvalid (length errs),
      RBlank, RTotalValue (st_total_value st), RAvgPrice (st_avg_price st),
      RBlank, RCategoriesHeader]
     @ map (\<lambda>(cat, d). RCategory cat (cat_count d) (cat_value d)) (st_by_category st)
     @ [RBlank, RErrorsHeader]
     @ (if errs = [] then [RNoErrors] else map (\<lambda>(line_num, msg). RError line_num msg) errs)"

text \<open>
  \<open>main\<close> reads \<open>input.txt\<close>, writes the report to \<open>report.txt\<close> and prints the summary.
  Writing the report is taken to succeed.
\<close>

definition main :: "pylib \<Rightarrow> world \<Rightarrow> unit outcome \<times> world" where
  "main L w =
     (case process_file L w (ustr ''input.txt'') of
        (Raises e, w1) \<Rightarrow> (Raises e, w1)
      | (Returns (valid, errs), w1) \<Rightarrow>
          (case calculate_statistics L valid of
             Raises e \<Rightarrow> (Raises e, w1)
           | Returns st \<Rightarrow>
               (Returns (),
                w1\<lparr>w_written := w_written w1 @
                       [(ustr ''report.txt'', generate_report valid errs st)],
                   w_console := w_console w1 @
                       [SummaryTitle, SummaryRule 40,
                        SummaryTotal (length valid + length errs),
                        SummaryValid (length valid), SummaryInvalid (length errs),
                        SummaryTotalValue (st_total_value st),
                        SummarySaved (ustr ''report.txt'')]\<rparr>)))"

text \<open>
  The first two calls of \<open>main\<close>, \<open>process_file\<close> and then \<open>calculate_statistics\<close> on the
  valid records, with what they return.
\<close>

definition pipeline :: "pylib \<Rightarrow> world \<Rightarrow> pystr \<Rightarrow> (valid_record list \<times> errors \<times> stats) outcome" where
  "pipeline L w path =
     (case fst (process_file L w path) of
        Raises e \<Rightarrow> Raises e
      | Returns (valid, errs) \<Rightarrow>
          (case calculate_statistics L valid of
             Raises e \<Rightarrow> Raises e
           | Returns st \<Rightarrow> Returns (valid, errs, st)))"


section \<open>The validation rules of the specification\<close>

text \<open>
  The specification gives validation as ten rules, each with its reasons. Here every rule
  is a function of its own that tells whether the rule fails on the fields of a line, and
  with which reason, whatever the other rules say. A field that the line does not have
  is read as the empty string. Rule 10 compares the product before it is rounded, as
  \<open>parse_and_validate\<close> does; dividing by \<open>100\<close> never fails.
\<close>

definition field :: "pystr list \<Rightarrow> nat \<Rightarrow> pystr" where
  "field parts k = (if k < length parts then parts ! k else [])"

definition unrounded_final_price :: "pyfloat \<Rightarrow> pyfloat \<Rightarrow> pyfloat" where
  "unrounded_final_price price discount = fmul price (fsub (Fin 1) (the (fdiv discount (Fin 100))))"

definition rule_field_count :: "pystr list \<Rightarrow> reason option" where
  "rule_field_count parts = (if length parts = 7 then None else Some WrongFieldCount)"

definition rule_id :: "pylib \<Rightarrow> int set \<Rightarrow> pystr list \<Rightarrow> reason option" where
  "rule_id L used_ids parts =
     (case py_int L (field parts 0) of
        None \<Rightarrow> Some IdNotNumber
      | Some i \<Rightarrow> if i \<le> 0 then Some IdNotPositive
                  else if i \<in> used_ids then Some IdNotUnique else None)"

definition rule_name :: "pystr list \<Rightarrow> reason option" where
  "rule_name parts =
     (if 3 \<le> length (strip (field parts 1)) \<and> length (strip (field parts 1)) \<le> 50 then None
      else Some BadNameLength)"

definition rule_category :: "pystr list \<Rightarrow> reason option" where
  "rule_category parts =
     (if field parts 2 \<in> ALLOWED_CATEGORIES then None else Some UnknownCategory)"

definition rule_price :: "pylib \<Rightarrow> pystr list \<Rightarrow> reason option" where
  "rule_price L parts =
     (case py_float L (field parts 3) of
        None \<Rightarrow> Some PriceBadFormat
      | Some price \<Rightarrow> if fle price (Fin 0) then Some PriceNotPositive else None)"

definition rule_quantity :: "pylib \<Rightarrow> pystr list \<Rightarrow> reason option" where
  "rule_quantity L parts =
     (case py_int L (field parts 4) of
        None \<Rightarrow> Some QuantityNotInteger
      | Some qty \<Rightarrow> if qty < 0 then Some QuantityNegative else None)"

definition rule_discount :: "pylib \<Rightarrow> pystr list \<Rightarrow> reason option" where
  "rule_discount L parts =
     (case py_float L (field parts 5) of
        None \<Rightarrow> Some DiscountBadFormat
      | Some discount \<Rightarrow>
          if flt discount (Fin 0) \<or> flt (Fin 50) discount then Some DiscountOutOfRange else None)"

definition rule_food_discount :: "pylib \<Rightarrow> pystr list \<Rightarrow> reason option" where
  "rule_food_discount L parts =
     (case py_float L (field parts 5) of
        None \<Rightarrow> None
      | Some discount \<Rightarrow>
          if field parts 2 = ustr ''food'' \<and> flt (Fin 20) discount
          then Some FoodDiscountTooLarge else None)"

definition rule_date :: "pylib \<Rightarrow> date \<Rightarrow> pystr list \<Rightarrow> reason option" where
  "rule_date L today parts =
     (case strptime_ymd L (field parts 6) of
        None \<Rightarrow> Some DateBadFormat
      | Some created_at \<Rightarrow> if date_less today created_at then Some DateInFuture else None)"

definition rule_final_price :: "pylib \<Rightarrow> pystr list \<Rightarrow> reason option" where
  "rule_final_price L parts =
     (case py_float L (field parts 3) of
        None \<Rightarrow> None
      | Some price \<Rightarrow>
          (case py_float L (field parts 5) of
             None \<Rightarrow> None
           | Some discount \<Rightarrow>
               if flt (unrounded_final_price price discount) (Fin 1)
               then Some FinalPriceBelowOne else None))"

definition rules :: "pylib \<Rightarrow> date \<Rightarrow> int set \<Rightarrow> pystr list \<Rightarrow> reason option list" where
  "rules L today used_ids parts =
     [rule_field_count parts, rule_id L used_ids parts, rule_name parts, rule_category parts,
      rule_price L parts, rule_quantity L parts, rule_discount L parts,
      rule_food_discount L parts, rule_date L today parts, rule_final_price L parts]"

fun first_failure :: "reason option list \<Rightarrow> reason option" where
  "first_failure [] = None"
| "first_failure (None # rs) = first_failure rs"
| "first_failure (Some r # rs) = Some r"

fun validation_failure :: "pv_result \<Rightarrow> reason option" where
  "validation_failure (ValidationError r) = Some r"
| "validation_failure (Record r) = None"
| "validation_failure (Uncaught e) = None"

section \<open>What holds of a valid record\<close>

text \<open>
  The properties of a record \<open>r\<close> that was made from a field \<open>raw_name\<close> and from the
  product \<open>u = price * (1 - discount / 100)\<close> before rounding: the quantity is not
  negative, the category is an allowed one, the name is the trimmed field and has 3 to 50
  characters, the final price is \<open>u\<close> rounded to two decimals, the total value is
  \<open>u * quantity\<close> rounded to two decimals, \<open>u\<close> is not below \<open>1\<close>, and the final price is
  at least \<open>1\<close> unless \<open>u\<close> is NaN.
\<close>

definition record_invariants :: "pystr \<Rightarrow> pyfloat \<Rightarrow> valid_record \<Rightarrow> bool" where
  "record_invariants raw_name u r \<longleftrightarrow>
     0 \<le> quantity r \<and> category r \<in> ALLOWED_CATEGORIES \<and>
     name r = strip raw_name \<and> 3 \<le> length (name r) \<and> length (name r) \<le> 50 \<and>
     final_price r = round2 u \<and>
     float_of_int (quantity r) \<noteq> None \<and>
     total_value r = round2 (fmul u (the (float_of_int (quantity r)))) \<and>
     \<not> flt u (Fin 1) \<and> (u = NaN \<or> fle (Fin 1) (final_price r))"

text \<open>The same for a record made from a line, whose fields give the price and the discount.\<close>

definition line_invariants :: "pylib \<Rightarrow> pystr \<Rightarrow> valid_record \<Rightarrow> bool" where
  "line_invariants L line r =
     (let parts = str_split DELIMITER (strip line) in
      case py_float L (field parts 3) of
        None \<Rightarrow> False
      | Some price \<Rightarrow>
          (case py_float L (field parts 5) of
             None \<Rightarrow> False
           | Some discount \<Rightarrow>
               record_invariants (field parts 1) (unrounded_final_price price discount) r))"

section \<open>The lines of a file in their order\<close>

text \<open>
  The lines of a file, each with its number and with what becomes of it: a blank line is
  an error of its own, any other line has the result of \<open>parse_and_validate\<close>, called with
  the ids used by the lines before it. \<open>valid_of\<close> and \<open>errors_of\<close> select the records
  and the errors, keeping the order of the lines.
\<close>

fun line_outcomes ::
  "pylib \<Rightarrow> date \<Rightarrow> nat \<Rightarrow> pystr list \<Rightarrow> int set \<Rightarrow> (nat \<times> pv_result) list"
where
  "line_outcomes L today n [] used_ids = []"
| "line_outcomes L today n (line # rest) used_ids =
     (if strip line = []
      then (n, ValidationError EmptyLine) # line_outcomes L today (Suc n) rest used_ids
      else (n, fst (parse_and_validate L today line n used_ids)) #
           line_outcomes L today (Suc n) rest (snd (parse_and_validate L today line n used_ids)))"

fun valid_of :: "(nat \<times> pv_result) list \<Rightarrow> valid_record list" where
  "valid_of [] = []"
| "valid_of ((n, Record r) # t) = r # valid_of t"
| "valid_of ((n, ValidationError e) # t) = valid_of t"
| "valid_of ((n, Uncaught x) # t) = valid_of t"

fun errors_of :: "(nat \<times> pv_result) list \<Rightarrow> errors" where
  "errors_of [] = []"
| "errors_of ((n, Record r) # t) = errors_of t"
| "errors_of ((n, ValidationError e) # t) = (n, e) # errors_of t"
| "errors_of ((n, Uncaught x) # t) = errors_of t"

text \<open>The elements of a list in the order in which each of them occurs first.\<close>

fun first_seen :: "'a list \<Rightarrow> 'a list" where
  "first_seen [] = []"
| "first_seen (x # xs) = x # removeAll x (first_seen xs)"

section \<open>A reference library for concrete runs\<close>

text \<open>
  To run the program on a concrete file the library functions must be given. The
  functions below read the plain ASCII forms: an optionally signed string of decimal
  digits for \<open>int\<close>; digits with an optional fraction, \<open>nan\<close>, \<open>inf\<close> and \<open>infinity\<close> for
  \<open>float\<close>, converted to the nearest float; the zero-padded \<open>YYYY-MM-DD\<close> form of a
  calendar date. On these forms they agree with Python. Python accepts more (digit
  groups with underscores, exponents, other scripts' digits); such strings are not used
  below, and no general theorem depends on this library.
\<close>

definition is_digit :: "nat \<Rightarrow> bool" where
  "is_digit c \<longleftrightarrow> 48 \<le> c \<and> c \<le> 57"

definition digits_value :: "pystr \<Rightarrow> int" where
  "digits_value ds = foldl (\<lambda>a c. 10 * a + (int c - 48)) 0 ds"

definition ascii_int :: "pystr \<Rightarrow> int option" where
  "ascii_int s =
     (let t = strip s;
          signed = (t \<noteq> [] \<and> (hd t = 45 \<or> hd t = 43));
          ds = (if signed then tl t else t)
      in if ds \<noteq> [] \<and> list_all is_digit ds
         then Some (if signed \<and> hd t = 45 then - digits_value ds else digits_value ds)
         else None)"

definition ascii_float :: "pystr \<Rightarrow> pyfloat option" where
  "ascii_float s =
     (let t = strip s;
          signed = (t \<noteq> [] \<and> (hd t = 45 \<or> hd t = 43));
          neg = (signed \<and> hd t = 45);
          body = (if signed then tl t else t);
          ip = takeWhile is_digit body;
          rest = dropWhile is_digit body;
          fp = (if rest = [] then [] else tl rest)
      in if body = ustr ''nan'' then Some NaN
         else if body = ustr ''inf'' \<or> body = ustr ''infinity''
         then Some (if neg then NInf else PInf)
         else if (rest = [] \<or> hd rest = 46) \<and> list_all is_digit fp \<and> (ip \<noteq> [] \<or> fp \<noteq> [])
         then Some (fl ((if neg then - 1 else 1) *
                        (of_int (digits_value (ip @ fp)) / 10 ^ length fp)))
         else None)"

definition days_in_month :: "nat \<Rightarrow> nat \<Rightarrow> nat" where
  "days_in_month y m =
     (if m = 2 then (if y mod 4 = 0 \<and> (y mod 100 \<noteq> 0 \<or> y mod 400 = 0) then 29 else 28)
      else if m = 4 \<or> m = 6 \<or> m = 9 \<or> m = 11 then 30 else 31)"

definition ascii_date :: "pystr \<Rightarrow> date option" where
  "ascii_date s =
     (if length s = 10 \<and> s ! 4 = 45 \<and> s ! 7 = 45 \<and>
         list_all is_digit (take 4 s @ take 2 (drop 5 s) @ drop 8 s)
      then (let y = nat (digits_value (take 4 s));
                m = nat (digits_value (take 2 (drop 5 s)));
                d = nat (digits_value (drop 8 s))
            in if 1 \<le> y \<and> 1 \<le> m \<and> m \<le> 12 \<and> 1 \<le> d \<and> d \<le> days_in_month y m
               then Some (Date y m d) else None)
      else None)"

text \<open>\<open>sum\<close> as repeated addition from the left, starting from \<open>0\<close>.\<close>

definition sum_plain :: "pyfloat list \<Rightarrow> pyfloat" where
  "sum_plain xs = foldl fadd (Fin 0) xs"

definition ascii_lib :: pylib where
  "ascii_lib = \<lparr>py_int = ascii_int, py_float = ascii_float, strptime_ymd = ascii_date,
                py_sum = sum_plain\<rparr>"

text \<open>
  A world whose \<open>input.txt\<close> holds the given lines and can be read to its end; no other
  file exists. The date is 1 January 2026.
\<close>

definition world_with :: "pystr list \<Rightarrow> world" where
  "world_with lines =
     \<lparr>w_files = (\<lambda>p. if p = ustr ''input.txt'' then Opened lines None
                      else OpenRaises FileNotFoundError),
      w_today = Date 2026 1 1, w_console = [], w_written = []\<rparr>"

text \<open>
  Four lines: a valid record (example 1 of the specification), a blank line, a name that
  is too short (example 3), and a second use of id 1 (example 4).
\<close>

definition sample_lines :: "pystr list" where
  "sample_lines =
     [ustr ''1;Widget;electronics;100.00;2;10;2020-01-01'',
      ustr ''   '',
      ustr ''3;AB;books;20;1;0;2020-01-01'',
      ustr ''1;Other;clothes;30;1;0;2020-01-01'']"

definition sample_record :: valid_record where
  "sample_record =
     \<lparr>rec_id = 1, name = ustr ''Widget'', category = ustr ''electronics'',
      final_price = Fin 90, quantity = 2, total_value = Fin 180\<rparr>"

text \<open>The statistics of \<open>sample_lines\<close>: one record in one category.\<close>

definition sample_stats :: stats where
  "sample_stats =
     \<lparr>st_total_value = Fin 180, st_avg_price = Fin 90,
      st_by_category = [(ustr ''electronics'', \<lparr>cat_count = 1, cat_value = Fin 180\<rparr>)]\<rparr>"



text \<open>
  A world with no file at all, and a world in which every file exists but may not be
  opened by this user.
\<close>

definition missing_world :: world where
  "missing_world =
     \<lparr>w_files = (\<lambda>p. OpenRaises FileNotFoundError),
      w_today = Date 2026 1 1, w_console = [], w_written = []\<rparr>"

definition unreadable_world :: world where
  "unreadable_world =
     \<lparr>w_files = (\<lambda>p. OpenRaises PermissionError),
      w_today = Date 2026 1 1, w_console = [], w_written = []\<rparr>"

text \<open>The report of a run without any record and without any error.\<close>

definition empty_report :: "report_line list" where
  "empty_report =
     [RTitle, RRule 50, RTotal 0, RValid 0, RInvalid 0, RBlank,
      RTotalValue (Fin 0), RAvgPrice (Fin 0), RBlank, RCategoriesHeader,
      RBlank, RErrorsHeader, RNoErrors]"

text \<open>
  A line that passes every check and whose quantity, a one followed by 309 zeros, is an
  integer beyond the range of the floats.
\<close>

definition huge :: int where
  "huge = 10 ^ 309"

definition huge_quantity :: pystr where
  "huge_quantity = ustr ''1000000000000000000000000000000000000000000000000000000000000000000000000000000000000000000000000000000000000000000000000000000000000000000000000000000000000000000000000000000000000000000000000000000000000000000000000000000000000000000000000000000000000000000000000000000000000000000000000000000000000000000000''"

definition huge_quantity_line :: pystr where
  "huge_quantity_line = ustr ''1;Widget;books;100;'' @ huge_quantity @ ustr '';0;2020-01-01''"

text \<open>A world in which reading \<open>input.txt\<close> fails after its first line.\<close>

definition undecodable_world :: world where
  "undecodable_world =
     \<lparr>w_files = (\<lambda>p. Opened [ustr ''1;Widget;electronics;100.00;2;10;2020-01-01'']
                          (Some UnicodeDecodeError)),
      w_today = Date 2026 1 1, w_console = [], w_written = []\<rparr>"

text \<open>
  A line that breaks rules 3, 4, 5, 6, 7, 9 and 10 at once, and a line whose final price
  \<open>0.998046875\<close> is below \<open>1\<close> and rounds to \<open>1.0\<close>.
\<close>

definition wrong_everywhere_line :: pystr where
  "wrong_everywhere_line = ustr ''3;AB;toys;-5;x;99;2999-01-01''"

definition below_one_line :: pystr where
  "below_one_line = ustr ''1;Widget;books;0.998046875;1;0;2020-01-01''"

text \<open>
  A line whose final price \<open>1.00390625\<close> rounds to \<open>1.0\<close> while \<open>256\<close> pieces are worth
  \<open>257\<close>, and a line whose price is NaN.
\<close>

definition rounding_gap_line :: pystr where
  "rounding_gap_line = ustr ''1;Widget;books;1.00390625;256;0;2020-01-01''"

definition nan_price_line :: pystr where
  "nan_price_line = ustr ''1;Widget;books;nan;1;0;2020-01-01''"

text \<open>
  A file with two books, between them a line that is not a record and a record of food,
  with the records and the statistics of its run.
\<close>

definition order_lines :: "pystr list" where
  "order_lines =
     [ustr ''1;Novel;books;10;1;0;2020-01-01'',
      ustr ''x'',
      ustr ''2;Bread;food;2;3;0;2020-01-01'',
      ustr ''3;Atlas;books;24;1;0;2020-01-01'']"

definition order_records :: "valid_record list" where
  "order_records =
     [\<lparr>rec_id = 1, name = ustr ''Novel'', category = ustr ''books'',
       final_price = Fin 10, quantity = 1, total_value = Fin 10\<rparr>,
      \<lparr>rec_id = 2, name = ustr ''Bread'', category = ustr ''food'',
       final_price = Fin 2, quantity = 3, total_value = Fin 6\<rparr>,
      \<lparr>rec_id = 3, name = ustr ''Atlas'', category = ustr ''books'',
       final_price = Fin 24, quantity = 1, total_value = Fin 24\<rparr>]"

definition order_stats :: stats where
  "order_stats =
     \<lparr>st_total_value = Fin 40, st_avg_price = Fin 12,
      st_by_category =
        [(ustr ''books'', \<lparr>cat_count = 2, cat_value = Fin 34\<rparr>),
         (ustr ''food'', \<lparr>cat_count = 1, cat_value = Fin 6\<rparr>)]\<rparr>"

section \<open>Properties\<close>

subsection \<open>Evaluating concrete runs\<close>

text \<open>
  Rules with which the simplifier computes the functions above on numerals and on
  string literals.
\<close>

lemma bit_length_0: "bit_length 0 = 0"
  by (simp add: bit_length.simps)

lemma bit_length_1: "bit_length (Suc 0) = Suc 0"
  by (simp add: bit_length.simps)

lemma bit_length_numeral: "bit_length (numeral k) = Suc (bit_length (numeral k div 2))"
  by (subst bit_length.simps) simp

lemma floor_numeral_div: "\<lfloor>numeral a / numeral b :: rat\<rfloor> = numeral a div numeral b"
  using floor_divide_of_int_eq[of "numeral a" "numeral b", where ?'a = rat] by simp

lemma floor_neg_numeral_div:
  "\<lfloor>- (numeral a / numeral b) :: rat\<rfloor> = - numeral a div numeral b"
  using floor_divide_of_int_eq[of "- numeral a" "numeral b", where ?'a = rat] by simp

lemma ceiling_numeral_div:
  "\<lceil>numeral a / numeral b :: rat\<rceil> = - (- numeral a div numeral b)"
  by (simp add: ceiling_def floor_neg_numeral_div)

lemmas float_simps = fl_def ilog2_def pow2_def round_half_even_def Let_def
  bit_length_0 bit_length_1 bit_length_numeral float_of_int_def fsub_def
  floor_numeral_div floor_neg_numeral_div ceiling_numeral_div

lemmas str_simps = strip_def ustr_def isspace_def DELIMITER_def

lemmas ascii_simps = ascii_lib_def ascii_int_def ascii_float_def ascii_date_def
  is_digit_def digits_value_def days_in_month_def

lemmas run_simps = parse_and_validate_def check_fields_def ALLOWED_CATEGORIES_def
  str_simps ascii_simps float_simps

subsection \<open>The loop of \<open>process_file\<close>\<close>

lemma process_lines_append:
  "process_lines L today n (xs @ ys) st =
     (case process_lines L today n xs st of
        Raises e \<Rightarrow> Raises e
      | Returns st' \<Rightarrow> process_lines L today (n + length xs) ys st')"
proof (induction xs arbitrary: n st)
  case Nil
  show ?case by simp
next
  case (Cons x xs)
  obtain v e u where st: "st = (v, e, u)" by (cases st) auto
  show ?case
    unfolding st
    by (simp add: Cons.IH split: prod.splits pv_result.splits outcome.splits)
qed

text \<open>Dividing by \<open>100\<close> never raises, so the only uncaught exception is \<open>OverflowError\<close>.\<close>

lemma fdiv_hundred: "fdiv d (Fin 100) \<noteq> None"
  by (cases d) simp_all

lemma check_fields_uncaught:
  "check_fields L today i nm cat rp rq rd rdate = Uncaught x \<Longrightarrow> x = OverflowError"
  by (auto simp: check_fields_def Let_def fdiv_hundred split: if_splits option.splits)

lemma parse_and_validate_uncaught:
  "parse_and_validate L today line n u = (Uncaught x, u') \<Longrightarrow> x = OverflowError"
  by (auto simp: parse_and_validate_def Let_def split: if_splits option.splits
      dest: check_fields_uncaught)

lemma process_lines_raises:
  "process_lines L today n lines st = Raises x \<Longrightarrow> x = OverflowError"
proof (induction lines arbitrary: n st)
  case Nil
  then show ?case by simp
next
  case (Cons l ls)
  obtain v e u where st: "st = (v, e, u)" by (cases st) auto
  from Cons.prems show ?case
    unfolding st
    by (auto split: if_splits prod.splits pv_result.splits
        dest: Cons.IH parse_and_validate_uncaught)
qed

lemma process_lines_count:
  "process_lines L today n lines (v, e, u) = Returns (v', e', u') \<Longrightarrow>
   length v' + length e' = length v + length e + length lines"
proof (induction lines arbitrary: n v e u)
  case Nil
  then show ?case by simp
next
  case (Cons x xs)
  show ?case
  proof (cases "strip x = []")
    case True
    with Cons.prems
    have "process_lines L today (Suc n) xs (v, e @ [(n, EmptyLine)], u) = Returns (v', e', u')"
      by simp
    from Cons.IH[OF this] show ?thesis by simp
  next
    case False
    obtain r u1 where pv: "parse_and_validate L today x n u = (r, u1)"
      by (cases "parse_and_validate L today x n u") auto
    show ?thesis
    proof (cases r)
      case (Record rr)
      with Cons.prems False pv
      have "process_lines L today (Suc n) xs (v @ [rr], e, u1) = Returns (v', e', u')"
        by simp
      from Cons.IH[OF this] show ?thesis by simp
    next
      case (ValidationError m)
      with Cons.prems False pv
      have "process_lines L today (Suc n) xs (v, e @ [(n, m)], u1) = Returns (v', e', u')"
        by simp
      from Cons.IH[OF this] show ?thesis by simp
    next
      case (Uncaught x)
      with Cons.prems False pv show ?thesis by simp
    qed
  qed
qed

lemma process_file_opened:
  assumes "w_files w path = Opened lines None"
    and "fst (process_file L w path) = Returns (valid, errs)"
  shows "\<exists>u. process_lines L (w_today w) 1 lines ([], [], {}) = Returns (valid, errs, u)"
  using assms
  by (auto simp: process_file_def except_file_not_found_def
      split: outcome.splits prod.splits if_splits dest: process_lines_raises)

subsection \<open>C10: every line is counted once, unless the run is aborted\<close>

text \<open>
  When \<open>process_file\<close> has read a file to its end and returns, the valid records and the
  errors together are as many as the lines of the file, and the total that
  \<open>generate_report\<close> prints (the third line of the report) is that number of lines.
\<close>

theorem partition_invariant:
  assumes "w_files w path = Opened lines None"
    and "fst (process_file L w path) = Returns (valid, errs)"
  shows "length valid + length errs = length lines \<and>
         generate_report valid errs st ! 2 = RTotal (length lines)"
proof -
  from process_file_opened[OF assms] obtain u
    where "process_lines L (w_today w) 1 lines ([], [], {}) = Returns (valid, errs, u)" ..
  from process_lines_count[OF this] have "length valid + length errs = length lines"
    by simp
  then show ?thesis by (simp add: generate_report_def)
qed

theorem partition_invariant_witness:
  "w_files (world_with sample_lines) (ustr ''input.txt'') = Opened sample_lines None \<and>
   fst (process_file ascii_lib (world_with sample_lines) (ustr ''input.txt'')) =
     Returns ([sample_record],
              [(2, EmptyLine), (3, BadNameLength), (4, IdNotUnique)]) \<and>
   length [sample_record] + length [(2::nat, EmptyLine), (3, BadNameLength), (4, IdNotUnique)]
     = length sample_lines"
proof -
  have h1: "w_files (world_with sample_lines) (ustr ''input.txt'') = Opened sample_lines None"
    by (simp add: world_with_def)
  have h2: "fst (process_file ascii_lib (world_with sample_lines) (ustr ''input.txt'')) =
     Returns ([sample_record],
              [(2, EmptyLine), (3, BadNameLength), (4, IdNotUnique)])"
    by (simp add: process_file_def world_with_def sample_lines_def sample_record_def run_simps)
  from partition_invariant[OF h1 h2] h1 h2 show ?thesis by simp
qed

text \<open>
  The loop catches \<open>ValidationError\<close> only. A line that passes every check and whose
  quantity is too large for a float makes \<open>final_price * quantity\<close> raise
  \<open>OverflowError\<close>, which nothing catches.
\<close>

lemma huge_fields:
  "str_split DELIMITER (strip huge_quantity_line) =
     [ustr ''1'', ustr ''Widget'', ustr ''books'', ustr ''100'', huge_quantity, ustr ''0'',
      ustr ''2020-01-01'']"
  by (simp add: huge_quantity_line_def huge_quantity_def str_simps)

lemma huge_int: "ascii_int huge_quantity = Some huge"
  by (simp add: huge_quantity_def huge_def str_simps ascii_int_def is_digit_def digits_value_def)

lemma huge_float: "float_of_int huge = None"
  by (simp add: huge_def float_simps)

lemma huge_nonneg: "\<not> huge < 0"
  by (simp add: huge_def)

lemma huge_check_fields:
  "check_fields ascii_lib (Date 2026 1 1) 1 (ustr ''Widget'') (ustr ''books'') (ustr ''100'')
     huge_quantity (ustr ''0'') (ustr ''2020-01-01'') = Uncaught OverflowError"
  by (simp add: check_fields_def ALLOWED_CATEGORIES_def str_simps ascii_lib_def
      ascii_float_def ascii_date_def is_digit_def digits_value_def days_in_month_def
      float_simps huge_int huge_float huge_nonneg del: float_of_int_def)

lemma huge_id: "py_int ascii_lib (ustr ''1'') = Some 1"
  by (simp add: str_simps ascii_simps)

lemma huge_validate:
  "parse_and_validate ascii_lib (Date 2026 1 1) huge_quantity_line 1 {} =
     (Uncaught OverflowError, {1})"
  by (simp add: parse_and_validate_def huge_fields huge_id huge_check_fields del: One_nat_def)

lemma huge_not_blank: "strip huge_quantity_line \<noteq> []"
  using huge_fields by auto

text \<open>
  Claim C10 says that every input line lands in exactly one of the two sequences, so that
  the lengths add up to the number of lines and the report shows that total. For the
  file whose only line is \<open>huge_quantity_line\<close> the line lands in neither: \<open>process_file\<close>
  raises \<open>OverflowError\<close>, \<open>main\<close> raises it too, and no report is written.
\<close>

theorem huge_quantity_aborts_run:
  "fst (process_file ascii_lib (world_with [huge_quantity_line]) (ustr ''input.txt'')) =
     Raises OverflowError \<and>
   fst (main ascii_lib (world_with [huge_quantity_line])) = Raises OverflowError \<and>
   w_written (snd (main ascii_lib (world_with [huge_quantity_line]))) = []"
  by (simp add: main_def process_file_def world_with_def except_file_not_found_def
      huge_not_blank huge_validate del: One_nat_def)

subsection \<open>C8: blank lines\<close>

lemma validator_on_blank:
  "strip line = [] \<Longrightarrow> parse_and_validate L today line n u = (ValidationError WrongFieldCount, u)"
  by (simp add: parse_and_validate_def)

text \<open>
  Claim C8. A line that is empty after trimming, met after the lines \<open>pre\<close> have been
  processed, adds the error \<open>(line number, EmptyLine)\<close> and leaves the valid records and
  \<open>used_ids\<close> as they were; the loop goes on with the next line. The reason is not the
  validator's: called on such a line the validator reports a wrong number of fields.
\<close>

theorem blank_line_skips_validator:
  assumes "strip line = []"
    and "process_lines L today n pre st = Returns (v, e, u)"
  shows "process_lines L today n (pre @ line # post) st =
           process_lines L today (Suc (n + length pre)) post
             (v, e @ [(n + length pre, EmptyLine)], u) \<and>
         parse_and_validate L today line (n + length pre) u =
           (ValidationError WrongFieldCount, u)"
  using assms by (simp add: process_lines_append validator_on_blank)

theorem blank_line_skips_validator_witness:
  "strip (ustr ''   '') = [] \<and>
   process_lines ascii_lib (Date 2026 1 1) 1
       [ustr ''1;Widget;electronics;100.00;2;10;2020-01-01''] ([], [], {}) =
     Returns ([sample_record], [], {1}) \<and>
   process_lines ascii_lib (Date 2026 1 1) 1
       ([ustr ''1;Widget;electronics;100.00;2;10;2020-01-01''] @ ustr ''   '' # []) ([], [], {}) =
     Returns ([sample_record], [(2, EmptyLine)], {1})"
proof -
  have h1: "strip (ustr ''   '') = []"
    by (simp add: str_simps)
  have h2: "process_lines ascii_lib (Date 2026 1 1) 1
       [ustr ''1;Widget;electronics;100.00;2;10;2020-01-01''] ([], [], {}) =
     Returns ([sample_record], [], {1})"
    by (simp add: sample_record_def run_simps)
  from blank_line_skips_validator[OF h1 h2, of "[]"] h1 h2 show ?thesis by simp
qed

subsection \<open>C3: an id is used up by the line that first carries it\<close>







subsection \<open>C5: a file that cannot be opened\<close>

text \<open>
  Claim C5, as stated, also covers a file that exists but cannot be opened or read. The
  handler of \<open>process_file\<close> names \<open>FileNotFoundError\<close> only: where opening raises
  \<open>PermissionError\<close>, \<open>process_file\<close> raises it too.
\<close>

theorem unreadable_file_raises:
  "fst (process_file ascii_lib unreadable_world (ustr ''input.txt'')) = Raises PermissionError \<and>
   fst (main ascii_lib unreadable_world) = Raises PermissionError \<and>
   w_written (snd (main ascii_lib unreadable_world)) = []"
  by (simp add: main_def process_file_def unreadable_world_def except_file_not_found_def)

text \<open>
  Claim C5, amended. When the input file does not exist, \<open>process_file\<close> does not raise:
  it prints that the file was not found and returns no record and no error, and \<open>main\<close>
  returns normally after writing the report of an empty run. When opening the file raises
  any other exception, \<open>process_file\<close> raises that exception. When reading the file raises
  any other exception, \<open>process_file\<close> raises too: that exception, or the \<open>OverflowError\<close>
  of a line read before. Whatever \<open>process_file\<close> raises, \<open>main\<close> raises, and nothing is
  printed and no report is written.
\<close>

theorem missing_file_soft_failure:
  "(w_files w path = OpenRaises FileNotFoundError \<longrightarrow>
      process_file L w path =
        (Returns ([], []), w\<lparr>w_console := w_console w @ [InputNotFound]\<rparr>)) \<and>
   (w_files w (ustr ''input.txt'') = OpenRaises FileNotFoundError \<longrightarrow>
      fst (main L w) = Returns () \<and>
      w_written (snd (main L w)) = w_written w @ [(ustr ''report.txt'', empty_report)]) \<and>
   (\<forall>e. e \<noteq> FileNotFoundError \<and> w_files w path = OpenRaises e \<longrightarrow>
      process_file L w path = (Raises e, w)) \<and>
   (\<forall>e lines. e \<noteq> FileNotFoundError \<and> w_files w path = Opened lines (Some e) \<longrightarrow>
      process_file L w path = (Raises e, w) \<or>
      process_file L w path = (Raises OverflowError, w)) \<and>
   (\<forall>e w'. process_file L w (ustr ''input.txt'') = (Raises e, w') \<longrightarrow>
      main L w = (Raises e, w'))"
  by (auto simp: process_file_def except_file_not_found_def main_def calculate_statistics_def
      generate_report_def empty_report_def
      split: outcome.splits prod.splits dest: process_lines_raises)

theorem missing_file_soft_failure_witness:
  "w_files missing_world (ustr ''input.txt'') = OpenRaises FileNotFoundError \<and>
   fst (process_file ascii_lib missing_world (ustr ''input.txt'')) = Returns ([], []) \<and>
   w_console (snd (process_file ascii_lib missing_world (ustr ''input.txt''))) = [InputNotFound] \<and>
   fst (main ascii_lib missing_world) = Returns () \<and>
   w_written (snd (main ascii_lib missing_world)) = [(ustr ''report.txt'', empty_report)] \<and>
   w_files unreadable_world (ustr ''input.txt'') = OpenRaises PermissionError \<and>
   process_file ascii_lib unreadable_world (ustr ''input.txt'') =
     (Raises PermissionError, unreadable_world) \<and>
   main ascii_lib unreadable_world = (Raises PermissionError, unreadable_world) \<and>
   (process_file ascii_lib undecodable_world (ustr ''input.txt'') =
      (Raises UnicodeDecodeError, undecodable_world) \<or>
    process_file ascii_lib undecodable_world (ustr ''input.txt'') =
      (Raises OverflowError, undecodable_world))"
proof -
  have h: "w_files missing_world (ustr ''input.txt'') = OpenRaises FileNotFoundError"
    by (simp add: missing_world_def)
  have p: "w_files unreadable_world (ustr ''input.txt'') = OpenRaises PermissionError"
    by (simp add: unreadable_world_def)
  have u: "w_files undecodable_world (ustr ''input.txt'') =
      Opened [ustr ''1;Widget;electronics;100.00;2;10;2020-01-01''] (Some UnicodeDecodeError)"
    by (simp add: undecodable_world_def)
  have a: "fst (process_file ascii_lib missing_world (ustr ''input.txt'')) = Returns ([], []) \<and>
      w_console (snd (process_file ascii_lib missing_world (ustr ''input.txt''))) =
        [InputNotFound] \<and>
      fst (main ascii_lib missing_world) = Returns () \<and>
      w_written (snd (main ascii_lib missing_world)) = [(ustr ''report.txt'', empty_report)]"
    using missing_file_soft_failure[of missing_world "ustr ''input.txt''" ascii_lib] h
    by (simp add: missing_world_def)
  have b: "process_file ascii_lib unreadable_world (ustr ''input.txt'') =
      (Raises PermissionError, unreadable_world)"
    using missing_file_soft_failure[of unreadable_world "ustr ''input.txt''" ascii_lib] p
    by simp
  have c: "main ascii_lib unreadable_world = (Raises PermissionError, unreadable_world)"
    using missing_file_soft_failure[of unreadable_world "ustr ''input.txt''" ascii_lib] b
    by simp
  have d: "process_file ascii_lib undecodable_world (ustr ''input.txt'') =
      (Raises UnicodeDecodeError, undecodable_world) \<or>
    process_file ascii_lib undecodable_world (ustr ''input.txt'') =
      (Raises OverflowError, undecodable_world)"
    using missing_file_soft_failure[of undecodable_world "ustr ''input.txt''" ascii_lib] u
    by simp
  from h p a b c d show ?thesis by simp
qed

subsection \<open>C9: a run depends on the file and the date only\<close>

lemma process_file_world:
  "w_files (snd (process_file L w path)) = w_files w \<and>
   w_today (snd (process_file L w path)) = w_today w"
  by (auto simp: process_file_def except_file_not_found_def
      split: open_result.splits outcome.splits option.splits prod.splits)

lemma process_file_depends:
  assumes "w_files w1 path = w_files w2 path" and "w_today w1 = w_today w2"
  shows "fst (process_file L w1 path) = fst (process_file L w2 path)"
  using assms
  by (auto simp: process_file_def except_file_not_found_def
      split: open_result.splits outcome.splits option.splits prod.splits)

text \<open>
  Claim C9. \<open>process_file\<close> creates its sequences and \<open>used_ids\<close> itself, so two runs of
  the pipeline in worlds that agree on the input file and on the date return the same
  valid records, the same errors and the same statistics, whatever else differs between
  the worlds; in particular a second run, in the world that the first run has left,
  returns what the first returned.
\<close>

theorem pipeline_deterministic:
  assumes "w_files w1 path = w_files w2 path" and "w_today w1 = w_today w2"
  shows "fst (process_file L w1 path) = fst (process_file L w2 path) \<and>
         pipeline L w1 path = pipeline L w2 path \<and>
         pipeline L (snd (process_file L w1 path)) path = pipeline L w1 path"
proof -
  have a: "fst (process_file L w1 path) = fst (process_file L w2 path)"
    using assms by (rule process_file_depends)
  have b: "fst (process_file L (snd (process_file L w1 path)) path) = fst (process_file L w1 path)"
    by (rule process_file_depends) (simp_all add: process_file_world)
  from a b show ?thesis by (simp add: pipeline_def)
qed

theorem pipeline_deterministic_witness:
  "w_files (world_with sample_lines) (ustr ''input.txt'') =
     w_files (world_with sample_lines\<lparr>w_console := [InputNotFound]\<rparr>) (ustr ''input.txt'') \<and>
   w_today (world_with sample_lines) =
     w_today (world_with sample_lines\<lparr>w_console := [InputNotFound]\<rparr>) \<and>
   pipeline ascii_lib (world_with sample_lines) (ustr ''input.txt'') =
     Returns ([sample_record], [(2, EmptyLine), (3, BadNameLength), (4, IdNotUnique)],
              sample_stats) \<and>
   pipeline ascii_lib (world_with sample_lines\<lparr>w_console := [InputNotFound]\<rparr>)
       (ustr ''input.txt'') =
     Returns ([sample_record], [(2, EmptyLine), (3, BadNameLength), (4, IdNotUnique)],
              sample_stats)"
proof -
  have h1: "w_files (world_with sample_lines) (ustr ''input.txt'') =
     w_files (world_with sample_lines\<lparr>w_console := [InputNotFound]\<rparr>) (ustr ''input.txt'')"
    by simp
  have h2: "w_today (world_with sample_lines) =
     w_today (world_with sample_lines\<lparr>w_console := [InputNotFound]\<rparr>)"
    by simp
  have h3: "fst (process_file ascii_lib (world_with sample_lines) (ustr ''input.txt'')) =
     Returns ([sample_record], [(2, EmptyLine), (3, BadNameLength), (4, IdNotUnique)])"
    by (simp add: process_file_def world_with_def sample_lines_def sample_record_def run_simps)
  have h4: "calculate_statistics ascii_lib [sample_record] = Returns sample_stats"
    by (simp add: calculate_statistics_def sample_record_def sample_stats_def sum_plain_def
        add_record_def defaultdict_get_def ascii_lib_def float_simps ustr_def)
  have h5: "pipeline ascii_lib (world_with sample_lines) (ustr ''input.txt'') =
     Returns ([sample_record], [(2, EmptyLine), (3, BadNameLength), (4, IdNotUnique)],
              sample_stats)"
    by (simp add: pipeline_def h3 h4)
  from pipeline_deterministic[OF h1 h2, of ascii_lib] h1 h2 h5 show ?thesis by simp
qed

subsection \<open>C4: the first failing rule gives the reason\<close>

lemmas rule_defs = rule_field_count_def rule_id_def rule_name_def rule_category_def
  rule_price_def rule_quantity_def rule_discount_def rule_food_discount_def rule_date_def
  rule_final_price_def

lemma first_failure_Cons:
  "first_failure (x # xs) = (case x of None \<Rightarrow> first_failure xs | Some r \<Rightarrow> Some r)"
  by (cases x) simp_all

lemma fdiv_hundred_the: "fdiv d (Fin 100) = Some h \<Longrightarrow> the (fdiv d (Fin 100)) = h"
  by simp

lemma check_fields_rules:
  assumes "length parts = 7"
  shows "validation_failure
           (check_fields L today i (parts ! 1) (parts ! 2) (parts ! 3) (parts ! 4) (parts ! 5)
              (parts ! 6)) =
         first_failure (drop 2 (rules L today used parts))"
  using assms
  by (auto simp add: check_fields_def rules_def rule_defs field_def Let_def
      unrounded_final_price_def fdiv_hundred split: option.split)

lemma parse_and_validate_rules:
  "validation_failure (fst (parse_and_validate L today line n used)) =
     first_failure (rules L today used (str_split DELIMITER (strip line)))"
proof (cases "length (str_split DELIMITER (strip line)) = 7")
  case False
  then show ?thesis
    by (simp add: parse_and_validate_def rules_def rule_field_count_def)
next
  case True
  have r: "rules L today used (str_split DELIMITER (strip line)) =
      rule_field_count (str_split DELIMITER (strip line)) #
      rule_id L used (str_split DELIMITER (strip line)) #
      drop 2 (rules L today used (str_split DELIMITER (strip line)))"
    by (simp add: rules_def)
  show ?thesis
    using True check_fields_rules[OF True, of L today _ used]
    by (subst r)
      (simp add: parse_and_validate_def Let_def rule_field_count_def rule_id_def field_def
        split: option.split)
qed

text \<open>
  Claim C4. The reason with which \<open>parse_and_validate\<close> rejects a line is the reason of
  the first rule, in the order 1 to 10, that fails on the line; where no rule fails the
  line is not rejected. So a later rule's reason is never reported when an earlier rule
  fails.
\<close>

theorem fail_fast_order:
  "validation_failure (fst (parse_and_validate L today line n used_ids)) =
     first_failure (rules L today used_ids (str_split DELIMITER (strip line)))"
  by (rule parse_and_validate_rules)

theorem fail_fast_order_witness:
  "rules ascii_lib (Date 2026 1 1) {} (str_split DELIMITER (strip wrong_everywhere_line)) =
     [None, None, Some BadNameLength, Some UnknownCategory, Some PriceNotPositive,
      Some QuantityNotInteger, Some DiscountOutOfRange, None, Some DateInFuture,
      Some FinalPriceBelowOne] \<and>
   fst (parse_and_validate ascii_lib (Date 2026 1 1) wrong_everywhere_line 1 {}) =
     ValidationError BadNameLength"
proof -
  have r: "rules ascii_lib (Date 2026 1 1) {} (str_split DELIMITER (strip wrong_everywhere_line)) =
     [None, None, Some BadNameLength, Some UnknownCategory, Some PriceNotPositive,
      Some QuantityNotInteger, Some DiscountOutOfRange, None, Some DateInFuture,
      Some FinalPriceBelowOne]"
    by (simp add: wrong_everywhere_line_def rules_def rule_defs field_def
        unrounded_final_price_def ALLOWED_CATEGORIES_def str_simps ascii_simps float_simps)
  have "validation_failure
          (fst (parse_and_validate ascii_lib (Date 2026 1 1) wrong_everywhere_line 1 {})) =
        Some BadNameLength"
    using fail_fast_order[of ascii_lib "Date 2026 1 1" wrong_everywhere_line 1 "{}"]
    unfolding r by simp
  then have "fst (parse_and_validate ascii_lib (Date 2026 1 1) wrong_everywhere_line 1 {}) =
     ValidationError BadNameLength"
    by (cases "fst (parse_and_validate ascii_lib (Date 2026 1 1) wrong_everywhere_line 1 {})")
      simp_all
  with r show ?thesis by simp
qed

subsection \<open>C2: the floor of the final price\<close>

text \<open>
  Claim C2 says that the final price is compared with \<open>1\<close> after it has been rounded to
  two decimals. The price \<open>0.998046875\<close> with no discount rounds to \<open>1.0\<close>, which is not
  below \<open>1\<close>, and the line is rejected all the same: the comparison is on the product
  before rounding.
\<close>

theorem floor_check_ignores_rounding:
  "py_float ascii_lib (str_split DELIMITER (strip below_one_line) ! 3) = Some (Fin (511 / 512)) \<and>
   py_float ascii_lib (str_split DELIMITER (strip below_one_line) ! 5) = Some (Fin 0) \<and>
   round2 (unrounded_final_price (Fin (511 / 512)) (Fin 0)) = Fin 1 \<and>
   \<not> flt (round2 (unrounded_final_price (Fin (511 / 512)) (Fin 0))) (Fin 1) \<and>
   fst (parse_and_validate ascii_lib (Date 2026 1 1) below_one_line 1 {}) =
     ValidationError FinalPriceBelowOne"
  by (simp add: below_one_line_def unrounded_final_price_def run_simps)

lemma first_failure_append:
  "first_failure (xs @ ys) =
     (case first_failure xs of None \<Rightarrow> first_failure ys | Some r \<Rightarrow> Some r)"
  by (induction xs rule: first_failure.induct) simp_all

lemma first_nine_rules:
  "first_failure (take 9 (rules L today used parts)) = None \<Longrightarrow>
   first_failure (rules L today used parts) = rule_final_price L parts"
proof -
  assume a: "first_failure (take 9 (rules L today used parts)) = None"
  have "rules L today used parts = take 9 (rules L today used parts) @ [rule_final_price L parts]"
    by (simp add: rules_def)
  then have "first_failure (rules L today used parts) =
      first_failure (take 9 (rules L today used parts) @ [rule_final_price L parts])"
    by simp
  also have "\<dots> = rule_final_price L parts"
    using a by (simp add: first_failure_append first_failure_Cons split: option.split)
  finally show ?thesis .
qed

lemma validation_failure_eq:
  "validation_failure x = Some r \<longleftrightarrow> x = ValidationError r"
  by (cases x) auto

lemma record_final_price:
  assumes "check_fields L today i f1 f2 f3 f4 f5 f6 = Record r"
    and "py_float L f3 = Some price" and "py_float L f5 = Some discount"
  shows "final_price r = round2 (unrounded_final_price price discount)"
  using assms
  by (auto simp add: check_fields_def Let_def unrounded_final_price_def
      split: option.splits if_splits)

lemma parse_and_validate_record:
  assumes "fst (parse_and_validate L today line n used) = Record r"
  shows "length (str_split DELIMITER (strip line)) = 7 \<and>
         (\<exists>i. check_fields L today i (str_split DELIMITER (strip line) ! 1)
                 (str_split DELIMITER (strip line) ! 2) (str_split DELIMITER (strip line) ! 3)
                 (str_split DELIMITER (strip line) ! 4) (str_split DELIMITER (strip line) ! 5)
                 (str_split DELIMITER (strip line) ! 6) = Record r)"
  using assms
  by (auto simp add: parse_and_validate_def Let_def split: option.splits if_splits)

text \<open>
  Claim C2, amended. A line that passes the rules 1 to 9, with price \<open>price\<close> and discount
  \<open>discount\<close>, is rejected with the reason of the floor exactly when the product
  \<open>price * (1 - discount / 100)\<close>, not rounded, is below \<open>1\<close>; and the record of an accepted
  line stores that product rounded to two decimals.
\<close>

theorem floor_check_on_unrounded_price:
  assumes "first_failure (take 9 (rules L today used_ids (str_split DELIMITER (strip line)))) = None"
    and "py_float L (str_split DELIMITER (strip line) ! 3) = Some price"
    and "py_float L (str_split DELIMITER (strip line) ! 5) = Some discount"
  shows "(fst (parse_and_validate L today line n used_ids) = ValidationError FinalPriceBelowOne) =
           flt (unrounded_final_price price discount) (Fin 1) \<and>
         (\<forall>r. fst (parse_and_validate L today line n used_ids) = Record r \<longrightarrow>
              final_price r = round2 (unrounded_final_price price discount))"
proof -
  let ?parts = "str_split DELIMITER (strip line)"
  have seven: "length ?parts = 7"
    using assms(1) by (simp add: rules_def rule_field_count_def first_failure_Cons
        split: if_splits option.splits)
  have "validation_failure (fst (parse_and_validate L today line n used_ids)) =
      rule_final_price L ?parts"
    using parse_and_validate_rules[of L today line n used_ids] first_nine_rules[OF assms(1)]
    by simp
  also have "\<dots> = (if flt (unrounded_final_price price discount) (Fin 1)
      then Some FinalPriceBelowOne else None)"
    using seven assms(2,3) by (simp add: rule_final_price_def field_def)
  finally have "(fst (parse_and_validate L today line n used_ids) =
      ValidationError FinalPriceBelowOne) = flt (unrounded_final_price price discount) (Fin 1)"
    using validation_failure_eq[of "fst (parse_and_validate L today line n used_ids)"
        FinalPriceBelowOne]
    by (simp split: if_splits)
  moreover have "final_price r = round2 (unrounded_final_price price discount)"
    if "fst (parse_and_validate L today line n used_ids) = Record r" for r
    using parse_and_validate_record[OF that] record_final_price assms(2,3) by blast
  ultimately show ?thesis by blast
qed

theorem floor_check_on_unrounded_price_witness:
  "first_failure (take 9 (rules ascii_lib (Date 2026 1 1) {}
       (str_split DELIMITER (strip (ustr ''1;Widget;electronics;100.00;2;10;2020-01-01''))))) = None \<and>
   unrounded_final_price (Fin 100) (Fin 10) = Fin 90 \<and>
   fst (parse_and_validate ascii_lib (Date 2026 1 1)
         (ustr ''1;Widget;electronics;100.00;2;10;2020-01-01'') 1 {}) \<noteq>
     ValidationError FinalPriceBelowOne"
proof -
  let ?line = "ustr ''1;Widget;electronics;100.00;2;10;2020-01-01''"
  have h1: "first_failure (take 9 (rules ascii_lib (Date 2026 1 1) {}
       (str_split DELIMITER (strip ?line)))) = None"
    by (simp add: rules_def rule_defs field_def
        unrounded_final_price_def ALLOWED_CATEGORIES_def str_simps ascii_simps float_simps)
  have h2: "py_float ascii_lib (str_split DELIMITER (strip ?line) ! 3) = Some (Fin 100)"
    by (simp add: str_simps ascii_simps float_simps)
  have h3: "py_float ascii_lib (str_split DELIMITER (strip ?line) ! 5) = Some (Fin 10)"
    by (simp add: str_simps ascii_simps float_simps)
  have u: "unrounded_final_price (Fin 100) (Fin 10) = Fin 90"
    by (simp add: unrounded_final_price_def float_simps)
  from floor_check_on_unrounded_price[OF h1 h2 h3, of 1] h1 u show ?thesis by simp
qed

subsection \<open>C1: what holds of every valid record\<close>

text \<open>
  Rounding a number that is at least \<open>1\<close> to two decimals, and then to a float, gives a
  float that is at least \<open>1\<close>.
\<close>

lemma round_half_even_ge:
  assumes "of_int k \<le> x"
  shows "k \<le> round_half_even x"
proof -
  have "k \<le> \<lfloor>x\<rfloor>" using assms by (simp add: le_floor_iff)
  moreover have "\<lfloor>x\<rfloor> \<le> round_half_even x"
    by (simp add: round_half_even_def Let_def)
  ultimately show ?thesis by simp
qed

lemma bit_length_pos: "0 < n \<Longrightarrow> 0 < bit_length n"
  by (subst bit_length.simps) simp

lemma bit_length_le: "0 < n \<Longrightarrow> 2 ^ (bit_length n - 1) \<le> n"
proof (induction n rule: bit_length.induct)
  case (1 n)
  show ?case
  proof (cases "n div 2 = 0")
    case True
    with 1 have "n = 1" by (simp add: div_eq_0_iff) 
    then show ?thesis by (simp add: bit_length_1)
  next
    case False
    then have pos: "0 < n div 2" by simp
    with 1 have ih: "2 ^ (bit_length (n div 2) - 1) \<le> n div 2" by simp
    have bl: "bit_length n = Suc (bit_length (n div 2))"
      using 1 by (subst bit_length.simps) simp
    from bit_length_pos[OF pos] obtain m where m: "bit_length (n div 2) = Suc m"
      by (cases "bit_length (n div 2)") auto
    from ih m have "2 ^ m \<le> n div 2" by simp
    then have "2 * 2 ^ m \<le> n" by simp
    with bl m show ?thesis by simp
  qed
qed

lemma pow2_pos: "0 < pow2 k"
  by (simp add: pow2_def)

lemma pow2_ilog2_le:
  assumes "1 \<le> y"
  shows "pow2 (ilog2 y - 52) \<le> y"
proof -
  let ?n = "nat \<lfloor>y\<rfloor>"
  have npos: "0 < ?n" using assms by simp
  have il: "ilog2 y = int (bit_length ?n) - 1"
    using assms by (simp add: ilog2_def)
  have "(2::nat) ^ (bit_length ?n - 1) \<le> ?n"
    using bit_length_le[OF npos] .
  then have "(of_nat (2 ^ (bit_length ?n - 1)) :: rat) \<le> of_nat ?n"
    by (simp only: of_nat_le_iff)
  also have "(of_nat ?n :: rat) \<le> y"
    using assms by (simp add: of_nat_nat)  
  finally have big: "(2::rat) ^ (bit_length ?n - 1) \<le> y" by simp
  show ?thesis
  proof (cases "0 \<le> ilog2 y - 52")
    case True
    then have "nat (ilog2 y - 52) \<le> bit_length ?n - 1" using il by simp
    then have "(2::rat) ^ nat (ilog2 y - 52) \<le> 2 ^ (bit_length ?n - 1)"
      by (simp add: power_increasing)
    from this big have "(2::rat) ^ nat (ilog2 y - 52) \<le> y"
      by (rule order_trans)
    with True show ?thesis by (simp add: pow2_def)
  next
    case False
    then have "pow2 (ilog2 y - 52) \<le> 1"
      by (simp add: pow2_def divide_le_eq_1)
    with assms show ?thesis by simp
  qed
qed

lemma rounded_grid_ge_one:
  assumes "1 \<le> y" and "q \<le> 0 \<or> pow2 q \<le> y"
  shows "1 \<le> of_int (round_half_even (y / pow2 q)) * pow2 q"
proof (cases "q \<le> 0")
  case True
  then have p: "pow2 q = 1 / 2 ^ nat (- q)"
    by (cases "q = 0") (simp_all add: pow2_def)
  have "(of_int (2 ^ nat (- q)) :: rat) \<le> y / pow2 q"
    using assms(1) by (simp add: p)
  then have "2 ^ nat (- q) \<le> round_half_even (y / pow2 q)"
    by (rule round_half_even_ge)
  then have "(of_int (2 ^ nat (- q)) :: rat) \<le> of_int (round_half_even (y / pow2 q))"
    by (simp only: of_int_le_iff)
  then have "(2 ^ nat (- q) :: rat) * pow2 q \<le> of_int (round_half_even (y / pow2 q)) * pow2 q"
    using pow2_pos[of q] by (simp add: mult_right_mono)
  then show ?thesis by (simp add: p)
next
  case False
  with assms(2) have le: "pow2 q \<le> y" by simp
  from False have ge: "1 \<le> pow2 q" by (simp add: pow2_def)
  have "(of_int 1 :: rat) \<le> y / pow2 q"
    using le pow2_pos[of q] by (simp add: le_divide_eq)
  then have m: "1 \<le> round_half_even (y / pow2 q)"
    by (rule round_half_even_ge)
  have a: "(1 :: rat) \<le> of_int (round_half_even (y / pow2 q))"
    using m by simp
  have b: "(0 :: rat) \<le> of_int (round_half_even (y / pow2 q))"
    using m by simp
  have "(1 :: rat) * 1 \<le> of_int (round_half_even (y / pow2 q)) * pow2 q"
    using a ge b by (intro mult_mono) simp_all
  then show ?thesis by simp
qed

lemma fl_ge_one:
  assumes "1 \<le> y"
  shows "fle (Fin 1) (fl y)"
proof -
  let ?q = "max (ilog2 \<bar>y\<bar> - 52) (- 1074)"
  have ay: "\<bar>y\<bar> = y" using assms by simp
  have "?q \<le> 0 \<or> pow2 ?q \<le> y"
  proof (cases "?q \<le> 0")
    case True
    then show ?thesis by simp
  next
    case False
    then have "?q = ilog2 y - 52" using ay by (simp add: max_def split: if_splits)
    with pow2_ilog2_le[OF assms] show ?thesis by simp
  qed
  from rounded_grid_ge_one[OF assms this]
  have "1 \<le> of_int (round_half_even (y / pow2 ?q)) * pow2 ?q" .
  with assms show ?thesis
    by (auto simp add: fl_def Let_def)
qed

lemma round2_ge_one:
  assumes "\<not> flt u (Fin 1)"
  shows "u = NaN \<or> fle (Fin 1) (round2 u)"
proof (cases u)
  case (Fin x)
  with assms have "1 \<le> x" by simp
  then have "(of_int 100 :: rat) \<le> x * 100" by simp
  then have "100 \<le> round_half_even (x * 100)" by (rule round_half_even_ge)
  then have "(of_int 100 :: rat) \<le> of_int (round_half_even (x * 100))"
    by (simp only: of_int_le_iff)
  then have "(1 :: rat) \<le> of_int (round_half_even (x * 100)) / 100" by simp
  from fl_ge_one[OF this] Fin show ?thesis by simp
next
  case PInf
  then show ?thesis by simp
next
  case NInf
  with assms show ?thesis by simp
next
  case NaN
  then show ?thesis by simp
qed

lemma check_fields_record:
  assumes "check_fields L today i f1 f2 f3 f4 f5 f6 = Record r"
  shows "\<exists>price discount. py_float L f3 = Some price \<and> py_float L f5 = Some discount \<and>
           record_invariants f1 (unrounded_final_price price discount) r"
  using assms
  by (auto simp add: check_fields_def Let_def unrounded_final_price_def record_invariants_def
      split: option.splits if_splits dest: round2_ge_one)

lemma parse_and_validate_invariants:
  assumes "fst (parse_and_validate L today line n used) = Record r"
  shows "line_invariants L line r"
proof -
  let ?parts = "str_split DELIMITER (strip line)"
  from parse_and_validate_record[OF assms] obtain i
    where seven: "length ?parts = 7"
      and cf: "check_fields L today i (?parts ! 1) (?parts ! 2) (?parts ! 3) (?parts ! 4)
                 (?parts ! 5) (?parts ! 6) = Record r"
    by blast
  from check_fields_record[OF cf] seven show ?thesis
    by (auto simp add: line_invariants_def Let_def field_def)
qed

lemma process_lines_invariants:
  "process_lines L today n lines (v, e, u) = Returns (v', e', u') \<Longrightarrow> r \<in> set v' \<Longrightarrow>
   r \<in> set v \<or> (\<exists>line\<in>set lines. line_invariants L line r)"
proof (induction lines arbitrary: n v e u)
  case Nil
  then show ?case by simp
next
  case (Cons x xs)
  show ?case
  proof (cases "strip x = []")
    case True
    with Cons.prems Cons.IH[of "Suc n" v "e @ [(n, EmptyLine)]" u] show ?thesis by auto
  next
    case False
    obtain res u1 where pv: "parse_and_validate L today x n u = (res, u1)"
      by (cases "parse_and_validate L today x n u") auto
    show ?thesis
    proof (cases res)
      case (Record rec)
      with Cons.prems False pv
      have "process_lines L today (Suc n) xs (v @ [rec], e, u1) = Returns (v', e', u')"
        by simp
      from Cons.IH[OF this Cons.prems(2)]
      have "r \<in> set (v @ [rec]) \<or> (\<exists>line\<in>set xs. line_invariants L line r)" .
      moreover have "line_invariants L x rec"
        using parse_and_validate_invariants[of L today x n u rec] pv Record by simp
      ultimately show ?thesis by auto
    next
      case (ValidationError err)
      with Cons.prems False pv
      have "process_lines L today (Suc n) xs (v, e @ [(n, err)], u1) = Returns (v', e', u')"
        by simp
      from Cons.IH[OF this Cons.prems(2)] show ?thesis by auto
    next
      case (Uncaught ex)
      with Cons.prems False pv show ?thesis by simp
    qed
  qed
qed

lemma process_file_returns:
  assumes "fst (process_file L w path) = Returns (valid, errs)"
  shows "valid = [] \<or>
         (\<exists>lines u. w_files w path = Opened lines None \<and>
            process_lines L (w_today w) 1 lines ([], [], {}) = Returns (valid, errs, u))"
  using assms
  by (auto simp: process_file_def except_file_not_found_def
      split: open_result.splits outcome.splits prod.splits option.splits if_splits)

text \<open>
  Claim C1 says that the total value of a record is its stored final price times its
  quantity, rounded. The line \<open>rounding_gap_line\<close> is accepted with the final price \<open>1.0\<close>,
  the quantity \<open>256\<close> and the total value \<open>257.0\<close>, while \<open>1.0 * 256\<close> rounds to \<open>256.0\<close>:
  the total value is computed from the final price before rounding.
\<close>

theorem total_value_from_unrounded_price:
  "fst (parse_and_validate ascii_lib (Date 2026 1 1) rounding_gap_line 1 {}) =
     Record \<lparr>rec_id = 1, name = ustr ''Widget'', category = ustr ''books'',
             final_price = Fin 1, quantity = 256, total_value = Fin 257\<rparr> \<and>
   float_of_int 256 = Some (Fin 256) \<and>
   round2 (fmul (Fin 1) (Fin 256)) = Fin 256"
  by (simp add: rounding_gap_line_def run_simps)

text \<open>
  A price that is NaN passes every comparison, and the record then has the final price
  NaN. The amended claim below says nothing about such a record's final price.
\<close>

lemma nan_price_accepted:
  "fst (parse_and_validate ascii_lib (Date 2026 1 1) nan_price_line 1 {}) =
     Record \<lparr>rec_id = 1, name = ustr ''Widget'', category = ustr ''books'',
             final_price = NaN, quantity = 1, total_value = NaN\<rparr>"
  by (simp add: nan_price_line_def run_simps)

text \<open>
  Claim C1, amended. Every record that \<open>parse_and_validate\<close> returns for a line satisfies
  \<open>line_invariants\<close> for that line, and every record in the valid sequence that
  \<open>process_file\<close> returns satisfies them for a line of the file: quantity at least \<open>0\<close>,
  an allowed category, a trimmed name of 3 to 50 characters, the final price and the
  total value as the roundings of \<open>u\<close> and of \<open>u * quantity\<close> for the product \<open>u\<close> before
  rounding, \<open>u\<close> not below \<open>1\<close>, and the final price at least \<open>1\<close> unless \<open>u\<close> is NaN.
\<close>

theorem valid_record_invariants:
  "(fst (parse_and_validate L today line n used_ids) = Record r \<longrightarrow> line_invariants L line r) \<and>
   (fst (process_file L w path) = Returns (valid, errs) \<longrightarrow>
      (\<forall>r\<in>set valid. \<exists>lines. w_files w path = Opened lines None \<and>
                          (\<exists>line\<in>set lines. line_invariants L line r)))"
proof (intro conjI impI ballI)
  assume "fst (parse_and_validate L today line n used_ids) = Record r"
  then show "line_invariants L line r" by (rule parse_and_validate_invariants)
next
  fix r'
  assume ret: "fst (process_file L w path) = Returns (valid, errs)" and mem: "r' \<in> set valid"
  from process_file_returns[OF ret] mem obtain lines u
    where op: "w_files w path = Opened lines None"
      and pl: "process_lines L (w_today w) 1 lines ([], [], {}) = Returns (valid, errs, u)"
    by auto
  from process_lines_invariants[OF pl mem] op
  show "\<exists>lines. w_files w path = Opened lines None \<and>
          (\<exists>line\<in>set lines. line_invariants L line r')"
    by auto
qed

theorem valid_record_invariants_witness:
  "fst (parse_and_validate ascii_lib (Date 2026 1 1)
          (ustr ''1;Widget;electronics;100.00;2;10;2020-01-01'') 1 {}) = Record sample_record \<and>
   line_invariants ascii_lib (ustr ''1;Widget;electronics;100.00;2;10;2020-01-01'') sample_record \<and>
   record_invariants (ustr ''Widget'') (Fin 90) sample_record"
proof -
  let ?line = "ustr ''1;Widget;electronics;100.00;2;10;2020-01-01''"
  have h: "fst (parse_and_validate ascii_lib (Date 2026 1 1) ?line 1 {}) = Record sample_record"
    by (simp add: sample_record_def run_simps)
  have i: "record_invariants (ustr ''Widget'') (Fin 90) sample_record"
    by (simp add: record_invariants_def sample_record_def ALLOWED_CATEGORIES_def str_simps
        float_simps)
  from valid_record_invariants[of ascii_lib "Date 2026 1 1" ?line 1 "{}" sample_record] h i
  show ?thesis by simp
qed

subsection \<open>C7: the order of the lines is kept\<close>

lemma process_lines_outcomes:
  "process_lines L today n lines (v, e, u) = Returns (v', e', u') \<Longrightarrow>
   v' = v @ valid_of (line_outcomes L today n lines u) \<and>
   e' = e @ errors_of (line_outcomes L today n lines u)"
proof (induction lines arbitrary: n v e u)
  case Nil
  then show ?case by simp
next
  case (Cons x xs)
  show ?case
  proof (cases "strip x = []")
    case True
    with Cons.prems Cons.IH[of "Suc n" v "e @ [(n, EmptyLine)]" u] show ?thesis by simp
  next
    case False
    obtain res u1 where pv: "parse_and_validate L today x n u = (res, u1)"
      by (cases "parse_and_validate L today x n u") auto
    show ?thesis
    proof (cases res)
      case (Record rec)
      with Cons.prems False pv Cons.IH[of "Suc n" "v @ [rec]" e u1] show ?thesis by simp
    next
      case (ValidationError err)
      with Cons.prems False pv Cons.IH[of "Suc n" v "e @ [(n, err)]" u1] show ?thesis by simp
    next
      case (Uncaught ex)
      with Cons.prems False pv show ?thesis by simp
    qed
  qed
qed

lemma line_outcomes_numbers:
  "map fst (line_outcomes L today n lines u) = [n..<n + length lines]"
proof (induction lines arbitrary: n u)
  case Nil
  then show ?case by simp
next
  case (Cons x xs)
  have "[n..<n + length (x # xs)] = n # [Suc n..<Suc n + length xs]"
    by (subst upt_rec) simp
  with Cons.IH show ?case by simp
qed

lemma errors_of_numbers: "(k, e) \<in> set (errors_of t) \<Longrightarrow> (k, ValidationError e) \<in> set t"
  by (induction t rule: errors_of.induct) auto

lemma errors_of_sorted:
  "sorted_wrt (<) (map fst t) \<Longrightarrow> sorted_wrt (<) (map fst (errors_of t))"
proof (induction t rule: errors_of.induct)
  case (3 n e t)
  have "n < k" if "(k, e') \<in> set (errors_of t)" for k e'
  proof -
    from errors_of_numbers[OF that] have "(k, ValidationError e') \<in> set t" .
    with "3.prems" show ?thesis by force
  qed
  with 3 show ?case by auto
qed auto

lemma map_entry_keys: "map fst (AList.map_entry k f al) = map fst al"
  by (induction al) auto

lemma add_record_keys:
  "map fst (add_record d r) =
     (if category r \<in> set (map fst d) then map fst d else map fst d @ [category r])"
  by (simp add: add_record_def defaultdict_get_def map_entry_keys)

lemma filter_removeAll_dropped:
  "\<not> P c \<Longrightarrow> filter P (removeAll c xs) = filter P xs"
  by (induction xs) auto

lemma filter_removeAll_kept:
  "filter (\<lambda>y. y \<noteq> c \<and> P y) xs = filter P (removeAll c xs)"
  by (induction xs) auto

lemma first_seen_keys:
  "foldl (\<lambda>ks c. if c \<in> set ks then ks else ks @ [c]) ks cs =
     ks @ filter (\<lambda>c. c \<notin> set ks) (first_seen cs)"
proof (induction cs arbitrary: ks)
  case Nil
  then show ?case by simp
next
  case (Cons c cs)
  show ?case
  proof (cases "c \<in> set ks")
    case True
    then have "filter (\<lambda>c. c \<notin> set ks) (removeAll c (first_seen cs)) =
        filter (\<lambda>c. c \<notin> set ks) (first_seen cs)"
      by (simp add: filter_removeAll_dropped)
    with True Cons.IH[of ks] show ?thesis by simp
  next
    case False
    have "filter (\<lambda>y. y \<notin> set (ks @ [c])) (first_seen cs) =
        filter (\<lambda>y. y \<notin> set ks) (removeAll c (first_seen cs))"
      using filter_removeAll_kept[where P = "\<lambda>y. y \<notin> set ks" and c = c and xs = "first_seen cs"]
      by simp
    with False Cons.IH[of "ks @ [c]"] show ?thesis by simp
  qed
qed

lemma foldl_add_record_keys:
  "map fst (foldl add_record d rs) =
     foldl (\<lambda>ks c. if c \<in> set ks then ks else ks @ [c]) (map fst d) (map category rs)"
proof (induction rs arbitrary: d)
  case Nil
  then show ?case by simp
next
  case (Cons r rs)
  show ?case using Cons.IH[of "add_record d r"] by (simp add: add_record_keys)
qed

lemma by_category_keys:
  "map fst (foldl add_record [] rs) = first_seen (map category rs)"
  by (simp add: foldl_add_record_keys first_seen_keys)

lemma calculate_statistics_keys:
  "calculate_statistics L records = Returns st \<Longrightarrow>
   map fst (st_by_category st) = first_seen (map category records)"
  by (auto simp add: calculate_statistics_def by_category_keys
      split: if_splits option.splits)

lemma process_file_returns_errs:
  assumes "fst (process_file L w path) = Returns (valid, errs)"
  shows "errs = [] \<or>
         (\<exists>lines u. process_lines L (w_today w) 1 lines ([], [], {}) = Returns (valid, errs, u))"
  using assms
  by (auto simp: process_file_def except_file_not_found_def
      split: open_result.splits outcome.splits prod.splits option.splits if_splits)

lemma pipeline_returns:
  assumes "pipeline L w path = Returns (valid, errs, st)"
  shows "fst (process_file L w path) = Returns (valid, errs) \<and>
         calculate_statistics L valid = Returns st"
  using assms
  by (auto simp add: pipeline_def split: outcome.splits prod.splits)

text \<open>
  Claim C7. Whenever the pipeline returns, the valid records are the records of the lines
  in the order of the lines, the errors are the errors of the lines in the order of the
  lines, with line numbers that increase strictly, and the categories of \<open>by_category\<close>
  come in the order in which each is first seen among the valid records.
\<close>

theorem order_preserved:
  assumes "pipeline L w path = Returns (valid, errs, st)"
  shows "(\<forall>lines. w_files w path = Opened lines None \<longrightarrow>
            map fst (line_outcomes L (w_today w) 1 lines {}) = [1..<Suc (length lines)] \<and>
            valid = valid_of (line_outcomes L (w_today w) 1 lines {}) \<and>
            errs = errors_of (line_outcomes L (w_today w) 1 lines {})) \<and>
         sorted_wrt (<) (map fst errs) \<and>
         map fst (st_by_category st) = first_seen (map category valid)"
proof -
  from pipeline_returns[OF assms]
  have pf: "fst (process_file L w path) = Returns (valid, errs)"
    and cs: "calculate_statistics L valid = Returns st"
    by simp_all
  have a: "valid = valid_of (line_outcomes L (w_today w) 1 lines {}) \<and>
           errs = errors_of (line_outcomes L (w_today w) 1 lines {})"
    if op: "w_files w path = Opened lines None" for lines
  proof -
    from process_file_opened[OF op pf] obtain u
      where "process_lines L (w_today w) 1 lines ([], [], {}) = Returns (valid, errs, u)" ..
    from process_lines_outcomes[OF this] show ?thesis by simp
  qed
  have b: "map fst (line_outcomes L (w_today w) 1 lines {}) = [1..<Suc (length lines)]" for lines
    by (simp add: line_outcomes_numbers)
  have c: "sorted_wrt (<) (map fst errs)"
  proof (cases "errs = []")
    case True
    then show ?thesis by simp
  next
    case False
    with process_file_returns_errs[OF pf] obtain lines u
      where pl: "process_lines L (w_today w) 1 lines ([], [], {}) = Returns (valid, errs, u)"
      by auto
    from process_lines_outcomes[OF pl]
    have "errs = errors_of (line_outcomes L (w_today w) 1 lines {})" by simp
    moreover have "sorted_wrt (<) (map fst (line_outcomes L (w_today w) 1 lines {}))"
      unfolding line_outcomes_numbers by (rule sorted_wrt_upt)
    ultimately show ?thesis by (simp add: errors_of_sorted)
  qed
  from a b c calculate_statistics_keys[OF cs] show ?thesis by blast
qed


theorem order_preserved_witness:
  "pipeline ascii_lib (world_with order_lines) (ustr ''input.txt'') =
     Returns (order_records, [(2, WrongFieldCount)], order_stats) \<and>
   w_files (world_with order_lines) (ustr ''input.txt'') = Opened order_lines None \<and>
   valid_of (line_outcomes ascii_lib (Date 2026 1 1) 1 order_lines {}) = order_records \<and>
   errors_of (line_outcomes ascii_lib (Date 2026 1 1) 1 order_lines {}) = [(2, WrongFieldCount)] \<and>
   map fst (st_by_category order_stats) = [ustr ''books'', ustr ''food''] \<and>
   first_seen (map category order_records) = [ustr ''books'', ustr ''food'']"
proof -
  have h1: "fst (process_file ascii_lib (world_with order_lines) (ustr ''input.txt'')) =
     Returns (order_records, [(2, WrongFieldCount)])"
    by (simp add: process_file_def world_with_def order_lines_def order_records_def run_simps)
  have h2: "calculate_statistics ascii_lib order_records = Returns order_stats"
    by (simp add: calculate_statistics_def order_records_def order_stats_def sum_plain_def
        add_record_def defaultdict_get_def ascii_lib_def float_simps ustr_def)
  have h: "pipeline ascii_lib (world_with order_lines) (ustr ''input.txt'') =
     Returns (order_records, [(2, WrongFieldCount)], order_stats)"
    by (simp add: pipeline_def h1 h2)
  have o: "w_files (world_with order_lines) (ustr ''input.txt'') = Opened order_lines None"
    by (simp add: world_with_def)
  have t: "w_today (world_with order_lines) = Date 2026 1 1"
    by (simp add: world_with_def)
  have k: "map fst (st_by_category order_stats) = [ustr ''books'', ustr ''food'']"
    by (simp add: order_stats_def)
  from order_preserved[OF h] o have
    "valid_of (line_outcomes ascii_lib (w_today (world_with order_lines)) 1 order_lines {}) =
       order_records"
    "errors_of (line_outcomes ascii_lib (w_today (world_with order_lines)) 1 order_lines {}) =
       [(2, WrongFieldCount)]"
    "first_seen (map category order_records) = map fst (st_by_category order_stats)"
    by simp_all
  with h o k show ?thesis unfolding t by simp
qed

end
